theory Spec2Isabelle
  imports Main
begin

section \<open>The coffee machine of \<^verbatim>\<open>coffee_machine.py\<close>\<close>

text \<open>
  The program is one class, \<^verbatim>\<open>CoffeeMachine\<close>, whose method \<^verbatim>\<open>run\<close> reads lines from
  standard input in a loop and calls the other methods. The model passes the object
  (\<^verbatim>\<open>self\<close>) and the console explicitly: every method takes the machine and the console
  and returns its value together with the machine and the console after the call.
\<close>

subsection \<open>Data\<close>

text \<open>Class \<^verbatim>\<open>Drink\<close>: the five attributes set by its constructor. Python's integers
  are unbounded, so they are \<^typ>\<open>int\<close>.\<close>

record Drink =
  name :: string
  water :: int
  milk :: int
  coffee :: int
  cost :: int

text \<open>Class \<^verbatim>\<open>Order\<close>: the constructor stores its two arguments and the text that
  \<^verbatim>\<open>time.strftime("%d-%m-%Y %H:%M:%S")\<close> returns at that moment.\<close>

record Order =
  drink_name :: string
  amount_paid :: int
  timestamp :: string

text \<open>The dictionary \<^verbatim>\<open>self.resources\<close>. It is created with the three keys
  \<^verbatim>\<open>'water'\<close>, \<^verbatim>\<open>'milk'\<close>, \<^verbatim>\<open>'coffee'\<close> and no statement adds or removes a key, so it is a
  record of three integers; \<^verbatim>\<open>self.resources['water']\<close> is \<open>Resources.water\<close>, which is
  written with its qualified name because \<open>Drink\<close> has fields of the same names.\<close>

record Resources =
  water :: int
  milk :: int
  coffee :: int

text \<open>The attributes of a \<^verbatim>\<open>CoffeeMachine\<close> object. The menu is a dictionary from the
  typed identifier to the drink.\<close>

record CoffeeMachine =
  resources :: Resources
  menu :: "string \<rightharpoonup> Drink"
  money_collected :: int
  orders :: "Order list"

subsection \<open>The console and the clock\<close>

text \<open>
  Every \<^verbatim>\<open>print\<close> and every prompt of \<^verbatim>\<open>input\<close> in the source is one constructor of
  \<open>text_out\<close>, carrying the values its f-string interpolates (the source's texts contain
  emoji, which are left out of the names):

  \<^item> \<open>Report_title\<close>, \<open>Report_water w\<close>, \<open>Report_milk m\<close>, \<open>Report_coffee c\<close>,
    \<open>Report_sales s\<close>, \<open>Report_orders n\<close>, \<open>Blank\<close>: the seven prints of \<^verbatim>\<open>print_report\<close>;
  \<^item> \<open>Not_enough_water\<close>, \<open>Not_enough_milk\<close>, \<open>Not_enough_coffee\<close>: \<^verbatim>\<open>check_resources\<close>;
  \<^item> \<open>Heres_your n\<close>: \<^verbatim>\<open>make_drink\<close>;
  \<^item> \<open>No_orders\<close>, \<open>History_title\<close>, \<open>History_entry timestamp drink_name amount_paid\<close>
    (and \<open>Blank\<close>): \<^verbatim>\<open>show_order_history\<close>;
  \<^item> the others: \<^verbatim>\<open>run\<close>; \<open>Ask_choice\<close>, \<open>Ask_password\<close> and \<open>Ask_amount\<close> are the
    prompts of its three calls of \<^verbatim>\<open>input\<close>.
\<close>

datatype text_out =
    Report_title | Report_water int | Report_milk int | Report_coffee int
  | Report_sales int | Report_orders nat | Blank
  | Not_enough_water | Not_enough_milk | Not_enough_coffee
  | Heres_your string
  | No_orders | History_title | History_entry string string int
  | Welcome | Ask_choice | Thank_you | Ask_password | Access_denied
  | Please_pay int | Ask_amount | Invalid_input | Here_is_your_change int
  | Not_enough_money | Invalid_option

text \<open>
  The console: the lines still to be read from standard input, what has been written
  to standard output so far, and the number of times the clock has been read.
\<close>

record console =
  stdin :: "string list"
  stdout :: "text_out list"
  ticks :: nat

text \<open>
  Two library functions are parameters of the model, so that every theorem holds
  whatever they compute: \<open>to_int\<close> is Python's \<^verbatim>\<open>int\<close> on a string (\<open>None\<close> where it
  raises \<^verbatim>\<open>ValueError\<close>), and \<open>clock n\<close> is the text \<^verbatim>\<open>time.strftime\<close> returns at its
  \<open>n\<close>-th call.
\<close>

record env =
  to_int :: "string \<Rightarrow> int option"
  clock :: "nat \<Rightarrow> string"

text \<open>The only exception that escapes the program: \<^verbatim>\<open>input\<close> at the end of standard
  input. (\<^verbatim>\<open>ValueError\<close> is caught where it is raised.)\<close>

datatype exn = EOFError

definition print :: "text_out \<Rightarrow> console \<Rightarrow> console" where
  "print t con = con\<lparr>stdout := stdout con @ [t]\<rparr>"

text \<open>\<^verbatim>\<open>input(prompt)\<close> writes the prompt, then reads a line; at the end of the
  input it raises \<^verbatim>\<open>EOFError\<close>.\<close>

definition input :: "text_out \<Rightarrow> console \<Rightarrow> (exn + string) \<times> console" where
  "input prompt con =
     (case stdin con of
        [] \<Rightarrow> (Inl EOFError, print prompt con)
      | l # ls \<Rightarrow> (Inr l, (print prompt con)\<lparr>stdin := ls\<rparr>))"

definition strftime :: "env \<Rightarrow> console \<Rightarrow> string \<times> console" where
  "strftime e con = (clock e (ticks con), con\<lparr>ticks := ticks con + 1\<rparr>)"

text \<open>\<^verbatim>\<open>str.lower\<close>, on ASCII text: the 26 capital letters are replaced.\<close>

definition lower_char :: "char \<Rightarrow> char" where
  "lower_char c =
     (case map_of (zip ''ABCDEFGHIJKLMNOPQRSTUVWXYZ'' ''abcdefghijklmnopqrstuvwxyz'') c of
        Some l \<Rightarrow> l
      | None \<Rightarrow> c)"

definition lower :: "string \<Rightarrow> string" where
  "lower s = map lower_char s"

text \<open>The slice \<^verbatim>\<open>xs[i:]\<close>: a negative start counts from the end, and a start outside
  the list is clamped to it.\<close>

definition slice_from :: "int \<Rightarrow> 'a list \<Rightarrow> 'a list" where
  "slice_from i xs =
     (let n = int (length xs);
          start = (if i < 0 then max (n + i) 0 else min i n)
      in drop (nat start) xs)"

subsection \<open>The methods of \<^verbatim>\<open>CoffeeMachine\<close>\<close>

text \<open>\<^verbatim>\<open>Order.__init__\<close>.\<close>

definition new_Order :: "env \<Rightarrow> string \<Rightarrow> int \<Rightarrow> console \<Rightarrow> Order \<times> console" where
  "new_Order e dn paid con =
     (case strftime e con of
        (ts, con') \<Rightarrow> (\<lparr>drink_name = dn, amount_paid = paid, timestamp = ts\<rparr>, con'))"

text \<open>\<^verbatim>\<open>CoffeeMachine.__init__\<close>. The three \<^verbatim>\<open>Drink\<close> objects it creates for the menu
  have names of their own here.\<close>

definition espresso :: Drink where
  "espresso = \<lparr>name = ''Espresso'', water = 50, milk = 0, coffee = 18, cost = 100\<rparr>"

definition latte :: Drink where
  "latte = \<lparr>name = ''Latte'', water = 200, milk = 150, coffee = 24, cost = 200\<rparr>"

definition cappuccino :: Drink where
  "cappuccino = \<lparr>name = ''Cappuccino'', water = 250, milk = 100, coffee = 24, cost = 250\<rparr>"

definition init :: CoffeeMachine where
  "init =
     \<lparr>resources = \<lparr>water = 1000, milk = 800, coffee = 300\<rparr>,
      menu = [''espresso'' \<mapsto> espresso, ''latte'' \<mapsto> latte, ''cappuccino'' \<mapsto> cappuccino],
      money_collected = 0,
      orders = []\<rparr>"

definition print_report :: "CoffeeMachine \<Rightarrow> console \<Rightarrow> CoffeeMachine \<times> console" where
  "print_report self con =
     (self,
      print Blank
        (print (Report_orders (length (orders self)))
          (print (Report_sales (money_collected self))
            (print (Report_coffee (Resources.coffee (resources self)))
              (print (Report_milk (Resources.milk (resources self)))
                (print (Report_water (Resources.water (resources self)))
                  (print Report_title con)))))))"

definition check_resources ::
  "CoffeeMachine \<Rightarrow> Drink \<Rightarrow> console \<Rightarrow> bool \<times> CoffeeMachine \<times> console" where
  "check_resources self drink con =
     (if Resources.water (resources self) < Drink.water drink
        then (False, self, print Not_enough_water con)
      else if Resources.milk (resources self) < Drink.milk drink
        then (False, self, print Not_enough_milk con)
      else if Resources.coffee (resources self) < Drink.coffee drink
        then (False, self, print Not_enough_coffee con)
      else (True, self, con))"

definition make_drink ::
  "env \<Rightarrow> CoffeeMachine \<Rightarrow> Drink \<Rightarrow> console \<Rightarrow> CoffeeMachine \<times> console" where
  "make_drink e self drink con =
     (let r1 = (resources self)\<lparr>Resources.water := Resources.water (resources self) - Drink.water drink\<rparr>;
          r2 = r1\<lparr>Resources.milk := Resources.milk r1 - Drink.milk drink\<rparr>;
          r3 = r2\<lparr>Resources.coffee := Resources.coffee r2 - Drink.coffee drink\<rparr>;
          self1 = self\<lparr>resources := r3\<rparr>;
          self2 = self1\<lparr>money_collected := money_collected self1 + cost drink\<rparr>
      in case new_Order e (name drink) (cost drink) con of
           (order, con1) \<Rightarrow>
             (self2\<lparr>orders := orders self2 @ [order]\<rparr>, print (Heres_your (name drink)) con1))"

definition show_order_history :: "CoffeeMachine \<Rightarrow> console \<Rightarrow> CoffeeMachine \<times> console" where
  "show_order_history self con =
     (if orders self = [] then (self, print No_orders con)
      else
        (self,
         print Blank
           (foldl (\<lambda>c order. print (History_entry (timestamp order) (drink_name order) (amount_paid order)) c)
              (print History_title con)
              (slice_from (- 5) (orders self)))))"

subsection \<open>The method \<^verbatim>\<open>run\<close>\<close>

text \<open>How one pass through the body of \<^verbatim>\<open>while True\<close> ends: at its end or at
  \<^verbatim>\<open>continue\<close>, at \<^verbatim>\<open>break\<close>, or with an exception that nothing catches.\<close>

datatype control = Continue | Break | Raise exn

text \<open>The body of the loop of \<^verbatim>\<open>run\<close>, branch for branch.\<close>

definition run_body :: "env \<Rightarrow> CoffeeMachine \<Rightarrow> console \<Rightarrow> control \<times> CoffeeMachine \<times> console" where
  "run_body e self con =
     (case input Ask_choice con of
        (Inl x, con1) \<Rightarrow> (Raise x, self, con1)
      | (Inr line, con1) \<Rightarrow>
          (let choice = lower line in
           if choice = ''exit'' then (Break, self, print Thank_you con1)
           else if choice = ''report'' then
             (case input Ask_password con1 of
                (Inl x, con2) \<Rightarrow> (Raise x, self, con2)
              | (Inr password, con2) \<Rightarrow>
                  if password = ''gcuadmin''
                  then (case print_report self con2 of (self1, con3) \<Rightarrow> (Continue, self1, con3))
                  else (Continue, self, print Access_denied con2))
           else if choice = ''history'' then
             (case show_order_history self con1 of (self1, con2) \<Rightarrow> (Continue, self1, con2))
           else
             (case menu self choice of
                Some drink \<Rightarrow>
                  (case check_resources self drink con1 of
                     (ok, self1, con2) \<Rightarrow>
                       if ok then
                         (case input Ask_amount (print (Please_pay (cost drink)) con2) of
                            (Inl x, con3) \<Rightarrow> (Raise x, self1, con3)
                          | (Inr typed, con3) \<Rightarrow>
                              (case to_int e typed of
                                 None \<Rightarrow> (Continue, self1, print Invalid_input con3)
                               | Some amount \<Rightarrow>
                                   if amount \<ge> cost drink then
                                     (let change = amount - cost drink;
                                          con4 = (if change > 0 then print (Here_is_your_change change) con3
                                                  else con3)
                                      in case make_drink e self1 drink con4 of
                                           (self2, con5) \<Rightarrow> (Continue, self2, con5))
                                   else (Continue, self1, print Not_enough_money con3)))
                       else (Continue, self1, con2))
              | None \<Rightarrow> (Continue, self, print Invalid_option con1))))"

text \<open>Every pass that does not end the loop has read at least one line, so on a finite
  input the loop ends, by \<^verbatim>\<open>exit\<close> or by \<^verbatim>\<open>EOFError\<close>.\<close>

lemma stdin_print [simp]: "stdin (print t con) = stdin con"
  by (simp add: print_def)

lemma stdin_input_le: "input p con = (r, con') \<Longrightarrow> length (stdin con') \<le> length (stdin con)"
  by (auto simp: input_def split: list.splits)

lemma stdin_input_Inr: "input p con = (Inr l, con') \<Longrightarrow> stdin con = l # stdin con'"
  by (auto simp: input_def split: list.splits)

lemma stdin_print_report [simp]: "stdin (snd (print_report self con)) = stdin con"
  by (simp add: print_report_def)

lemma stdin_foldl_print [simp]: "stdin (foldl (\<lambda>c x. print (f x) c) con xs) = stdin con"
  by (induction xs arbitrary: con) simp_all

lemma stdin_show_order_history [simp]: "stdin (snd (show_order_history self con)) = stdin con"
  by (simp add: show_order_history_def)

lemma stdin_check_resources [simp]: "stdin (snd (snd (check_resources self drink con))) = stdin con"
  by (simp add: check_resources_def)

lemma stdin_make_drink [simp]: "stdin (snd (make_drink e self drink con)) = stdin con"
  by (simp add: make_drink_def new_Order_def strftime_def Let_def)

lemma run_body_Continue_stdin:
  assumes "run_body e self con = (Continue, self', con')"
  shows "length (stdin con') < length (stdin con)"
proof (cases "input Ask_choice con")
  case (Pair r con1)
  show ?thesis
  proof (cases r)
    case (Inl x)
    with Pair assms show ?thesis by (simp add: run_body_def)
  next
    case (Inr line)
    with Pair have len1: "length (stdin con1) < length (stdin con)"
      using stdin_input_Inr [of Ask_choice con line con1] by simp
    have rep: "print_report self c = (s', c') \<Longrightarrow> stdin c' = stdin c" for c s' c'
      using stdin_print_report [of self c] by simp
    have his: "show_order_history self c = (s', c') \<Longrightarrow> stdin c' = stdin c" for c s' c'
      using stdin_show_order_history [of self c] by simp
    have chk: "check_resources self d c = (b, s', c') \<Longrightarrow> stdin c' = stdin c" for d c b s' c'
      using stdin_check_resources [of self d c] by simp
    have mk: "make_drink e s d c = (s', c') \<Longrightarrow> stdin c' = stdin c" for s d c s' c'
      using stdin_make_drink [of e s d c] by simp
    from assms Pair Inr len1 show ?thesis
      by (auto simp: run_body_def Let_def
               split: if_splits prod.splits sum.splits option.splits
               dest!: rep his chk mk stdin_input_le)
  qed
qed

function run_loop :: "env \<Rightarrow> CoffeeMachine \<Rightarrow> console \<Rightarrow> exn option \<times> CoffeeMachine \<times> console" where
  "run_loop e self con =
     (case run_body e self con of
        (Continue, self1, con1) \<Rightarrow> run_loop e self1 con1
      | (Break, self1, con1) \<Rightarrow> (None, self1, con1)
      | (Raise x, self1, con1) \<Rightarrow> (Some x, self1, con1))"
  by pat_completeness auto
termination
  by (relation "measure (\<lambda>(e, self, con). length (stdin con))")
     (auto dest: run_body_Continue_stdin [OF sym])

declare run_loop.simps [simp del]

definition run :: "env \<Rightarrow> CoffeeMachine \<Rightarrow> console \<Rightarrow> exn option \<times> CoffeeMachine \<times> console" where
  "run e self con = run_loop e self (print Welcome con)"

text \<open>The entry point: a new machine is created and run.\<close>

definition main :: "env \<Rightarrow> console \<Rightarrow> exn option \<times> CoffeeMachine \<times> console" where
  "main e con = run e init con"

subsection \<open>Clients and test fixtures\<close>

text \<open>A client of the class calls its methods one after the other; \<open>Run ls\<close> is a call
  of \<^verbatim>\<open>run\<close> during which the lines \<open>ls\<close> are typed. \<^verbatim>\<open>make_drink\<close> and
  \<^verbatim>\<open>check_resources\<close> accept any \<^verbatim>\<open>Drink\<close> object, not only those of the menu.
  \<open>Pass ls\<close> is a single pass through the body of the loop of \<^verbatim>\<open>run\<close>, with the lines
  \<open>ls\<close> to read, so that the states of the machine between two passes of a running loop
  are among those the calls reach.\<close>

datatype call =
    Print_report | Check_resources Drink | Make_drink Drink | Show_order_history
  | Run "string list" | Pass "string list"

fun do_call :: "env \<Rightarrow> CoffeeMachine \<times> console \<Rightarrow> call \<Rightarrow> CoffeeMachine \<times> console" where
  "do_call e (self, con) Print_report = print_report self con"
| "do_call e (self, con) (Check_resources d) = snd (check_resources self d con)"
| "do_call e (self, con) (Make_drink d) = make_drink e self d con"
| "do_call e (self, con) Show_order_history = show_order_history self con"
| "do_call e (self, con) (Run ls) = snd (run e self (con\<lparr>stdin := ls\<rparr>))"
| "do_call e (self, con) (Pass ls) = snd (run_body e self (con\<lparr>stdin := ls\<rparr>))"

definition do_calls :: "env \<Rightarrow> call list \<Rightarrow> console \<Rightarrow> CoffeeMachine \<times> console" where
  "do_calls e cs con = foldl (do_call e) (init, con) cs"

text \<open>The specification's \<open>recent(n)\<close>, in its own words: the last \<open>n\<close> records of the
  history, oldest first, and the whole history when it is shorter. It is compared with
  what \<^verbatim>\<open>show_order_history\<close> lists.\<close>

definition recent :: "nat \<Rightarrow> 'a list \<Rightarrow> 'a list" where
  "recent n xs = drop (length xs - n) xs"

definition history_entry :: "Order \<Rightarrow> text_out" where
  "history_entry order = History_entry (timestamp order) (drink_name order) (amount_paid order)"

text \<open>An environment to run the model on concrete inputs: a string of decimal digits is
  read as \<^verbatim>\<open>int\<close> reads it, and the clock stands still.\<close>

definition digit :: "char \<Rightarrow> int option" where
  "digit c = map_of (zip ''0123456789'' [0, 1, 2, 3, 4, 5, 6, 7, 8, 9]) c"

fun decimal_from :: "int \<Rightarrow> string \<Rightarrow> int option" where
  "decimal_from a [] = Some a"
| "decimal_from a (c # cs) =
     (case digit c of None \<Rightarrow> None | Some d \<Rightarrow> decimal_from (10 * a + d) cs)"

definition decimal :: "string \<Rightarrow> int option" where
  "decimal s = (if s = [] then None else decimal_from 0 s)"

definition test_env :: env where
  "test_env = \<lparr>to_int = decimal, clock = (\<lambda>n. ''04-11-2026 09:00:00'')\<rparr>"

definition console0 :: "string list \<Rightarrow> console" where
  "console0 ls = \<lparr>stdin = ls, stdout = [], ticks = 0\<rparr>"

text \<open>Two machines reached by running the program: one on which four cappuccinos have
  been bought, which leaves no water, and one on which an espresso and a latte have been
  bought.\<close>

definition drained :: CoffeeMachine where
  "drained = fst (do_calls test_env
     [Run [''cappuccino'', ''250'', ''cappuccino'', ''250'', ''cappuccino'', ''250'',
           ''cappuccino'', ''250'', ''exit'']] (console0 []))"

definition two_orders :: CoffeeMachine where
  "two_orders = fst (do_calls test_env
     [Run [''espresso'', ''100'', ''latte'', ''200'', ''exit'']] (console0 []))"

section \<open>Properties\<close>

subsection \<open>Auxiliary facts\<close>

lemma input_Cons:
  "stdin con = l # ls \<Longrightarrow> input p con = (Inr l, con\<lparr>stdin := ls, stdout := stdout con @ [p]\<rparr>)"
  by (simp add: input_def print_def)

lemma input_Nil:
  "stdin con = [] \<Longrightarrow> input p con = (Inl EOFError, con\<lparr>stdout := stdout con @ [p]\<rparr>)"
  by (simp add: input_def print_def)

lemma machine_check_resources: "fst (snd (check_resources self drink con)) = self"
  by (simp add: check_resources_def)

lemma machine_print_report: "fst (print_report self con) = self"
  by (simp add: print_report_def)

lemma machine_show_order_history: "fst (show_order_history self con) = self"
  by (simp add: show_order_history_def)

lemma machine_make_drink:
  "fst (make_drink e self drink con) =
     self\<lparr>resources :=
            \<lparr>water = Resources.water (resources self) - Drink.water drink,
             milk = Resources.milk (resources self) - Drink.milk drink,
             coffee = Resources.coffee (resources self) - Drink.coffee drink\<rparr>,
          money_collected := money_collected self + cost drink,
          orders := orders self @
            [\<lparr>drink_name = name drink, amount_paid = cost drink, timestamp = clock e (ticks con)\<rparr>]\<rparr>"
  by (simp add: make_drink_def new_Order_def strftime_def Let_def)

lemma run_loop_Continue:
  "run_body e self con = (Continue, s1, c1) \<Longrightarrow> run_loop e self con = run_loop e s1 c1"
  by (subst run_loop.simps) simp

lemma run_loop_Break:
  "run_body e self con = (Break, s1, c1) \<Longrightarrow> run_loop e self con = (None, s1, c1)"
  by (subst run_loop.simps) simp

lemma run_loop_Raise:
  "run_body e self con = (Raise x, s1, c1) \<Longrightarrow> run_loop e self con = (Some x, s1, c1)"
  by (subst run_loop.simps) simp

text \<open>A pass of the loop on which nothing can be read leaves the machine as it is.\<close>

lemma run_body_Nil: "stdin con = [] \<Longrightarrow> fst (snd (run_body e self con)) = self"
  by (simp add: run_body_def input_Nil)

text \<open>A pass whose drink fails the inventory check leaves the machine as it is.\<close>

lemma run_body_check_fails:
  assumes "stdin con = typed # rest"
    and "menu self (lower typed) = Some drink"
    and "\<not> fst (check_resources self drink con)"
  shows "fst (snd (run_body e self con)) = self"
  using assms
  by (auto simp: run_body_def Let_def input_Cons check_resources_def print_report_def
        show_order_history_def
      split: prod.splits sum.splits if_splits)

text \<open>
  What a pass of the loop can do to the machine: nothing, or one call of \<^verbatim>\<open>make_drink\<close>
  for the drink of the menu that was typed, made after \<^verbatim>\<open>check_resources\<close> returned
  \<^verbatim>\<open>True\<close> for it.
\<close>

lemma run_body_machine:
  "fst (snd (run_body e self con)) = self
   \<or> (\<exists>typed rest drink.
         stdin con = typed # rest \<and> menu self (lower typed) = Some drink
         \<and> fst (check_resources self drink con)
         \<and> fst (snd (run_body e self con)) = fst (make_drink e self drink con))"
proof (cases "stdin con")
  case Nil
  then show ?thesis by (simp add: run_body_Nil)
next
  case (Cons typed rest)
  show ?thesis
  proof (cases "menu self (lower typed)")
    case None
    with Cons show ?thesis
      by (simp add: run_body_def Let_def input_Cons print_report_def show_order_history_def
            split: prod.splits sum.splits)
  next
    case (Some drink)
    show ?thesis
    proof (cases "lower typed \<in> {''exit'', ''report'', ''history''}")
      case True
      with Cons show ?thesis
        by (auto simp: run_body_def Let_def input_Cons print_report_def show_order_history_def
              split: prod.splits sum.splits)
    next
      case False
      show ?thesis
      proof (cases "fst (check_resources self drink con)")
        case no: False
        with Cons Some show ?thesis by (simp add: run_body_check_fails)
      next
        case ok: True
        have unchanged_or_made:
          "fst (snd (run_body e self con)) = self
           \<or> fst (snd (run_body e self con)) = fst (make_drink e self drink con)"
        proof (cases rest)
          case Nil
          with Cons Some False ok show ?thesis
            by (simp add: run_body_def Let_def input_Cons input_Nil print_def check_resources_def
                  split: if_splits)
        next
          case typed2: (Cons typed2 rest2)
          show ?thesis
          proof (cases "to_int e typed2")
            case None
            with Cons Some False ok typed2 show ?thesis
              by (simp add: run_body_def Let_def input_Cons print_def check_resources_def
                    split: if_splits)
          next
            case amount: (Some amount)
            with Cons Some False ok typed2 show ?thesis
              by (simp add: run_body_def Let_def input_Cons print_def check_resources_def
                    make_drink_def new_Order_def strftime_def split: if_splits)
          qed
        qed
        with Cons Some ok show ?thesis by blast
      qed
    qed
  qed
qed

subsection \<open>The inventory check\<close>

text \<open>
  C4. For every drink and every inventory state, \<^verbatim>\<open>check_resources\<close> returns \<^verbatim>\<open>True\<close>
  if and only if the machine holds at least the water, the milk and the coffee the drink
  needs, and the machine it leaves behind is the machine it was given.
\<close>

theorem check_resources_iff:
  "fst (check_resources self drink con) =
     (Resources.water (resources self) \<ge> Drink.water drink
      \<and> Resources.milk (resources self) \<ge> Drink.milk drink
      \<and> Resources.coffee (resources self) \<ge> Drink.coffee drink)
   \<and> fst (snd (check_resources self drink con)) = self"
  by (simp add: check_resources_def not_less)

text \<open>
  C8. \<^verbatim>\<open>check_resources\<close> examines water, then milk, then coffee, and writes one
  message, for the first of them that is short, whatever the later ones are; when all
  three suffice it writes nothing.
\<close>

theorem check_resources_reports_first_shortage:
  "stdout (snd (snd (check_resources self drink con))) =
     stdout con @
       (if Resources.water (resources self) < Drink.water drink then [Not_enough_water]
        else if Resources.milk (resources self) < Drink.milk drink then [Not_enough_milk]
        else if Resources.coffee (resources self) < Drink.coffee drink then [Not_enough_coffee]
        else [])"
  by (simp add: check_resources_def print_def)

subsection \<open>Rejected purchases\<close>

text \<open>
  C1. A purchase attempt is a pass of the loop of \<^verbatim>\<open>run\<close> that starts by reading the
  drink's identifier. When the identifier is not in the menu, or the drink is in the menu
  and one of the three resources is short, or the amount typed is below the drink's price
  (or is no number at all), the machine after the pass is the machine before it: the
  resources, the orders and the money collected are all unchanged.
\<close>

theorem rejected_purchase_unchanged:
  assumes "stdin con = typed # rest"
    and "menu self (lower typed) = None
       \<or> (menu self (lower typed) = Some drink
          \<and> (Resources.water (resources self) < Drink.water drink
             \<or> Resources.milk (resources self) < Drink.milk drink
             \<or> Resources.coffee (resources self) < Drink.coffee drink))
       \<or> (menu self (lower typed) = Some drink
          \<and> rest = paid # later \<and> to_int e paid = Some amount \<and> amount < cost drink)
       \<or> (menu self (lower typed) = Some drink
          \<and> rest = paid # later \<and> to_int e paid = None)"
  shows "fst (snd (run_body e self con)) = self"
  using assms
  by (auto simp: run_body_def Let_def input_Cons check_resources_def print_report_def
        show_order_history_def
      split: prod.splits sum.splits option.splits if_splits list.splits)

text \<open>The specification's scenario: on a new machine, 150 is paid for a latte, which
  costs 200.\<close>

theorem rejected_purchase_unchanged_witness:
  "menu init (lower ''latte'') = Some latte
   \<and> to_int test_env ''150'' = Some 150
   \<and> 150 < cost latte
   \<and> fst (snd (run_body test_env init (console0 [''latte'', ''150'']))) = init"
proof -
  have a: "stdin (console0 [''latte'', ''150'']) = ''latte'' # [''150'']"
    by (simp add: console0_def)
  have b: "menu init (lower ''latte'') = Some latte"
    by (simp add: init_def lower_def lower_char_def)
  have c: "to_int test_env ''150'' = Some 150"
    by (simp add: test_env_def decimal_def digit_def)
  have d: "150 < cost latte"
    by (simp add: latte_def)
  have "fst (snd (run_body test_env init (console0 [''latte'', ''150'']))) = init"
    using rejected_purchase_unchanged
      [where drink = latte and paid = "''150''" and later = "[]" and amount = 150, OF a]
      b c d
    by simp
  with b c d show ?thesis by simp
qed

subsection \<open>Payment\<close>

text \<open>
  C5. For a drink of the menu whose resources are available, the amount typed decides the
  purchase. Below the price the purchase is rejected: the machine is unchanged, no order
  is recorded, and the refusal (with its refund notice) is the only answer. Otherwise the
  drink is made, and the change is the amount minus the price: it is not negative, it is
  announced when it is positive, and nothing is announced when it is zero.
\<close>

theorem payment_decides_purchase:
  assumes "stdin con = typed # paid # rest"
    and "lower typed \<notin> {''exit'', ''report'', ''history''}"
    and "menu self (lower typed) = Some drink"
    and "Resources.water (resources self) \<ge> Drink.water drink"
    and "Resources.milk (resources self) \<ge> Drink.milk drink"
    and "Resources.coffee (resources self) \<ge> Drink.coffee drink"
    and "to_int e paid = Some amount"
  shows
    "if amount < cost drink then
       run_body e self con =
         (Continue, self,
          con\<lparr>stdin := rest,
              stdout := stdout con @ [Ask_choice, Please_pay (cost drink), Ask_amount, Not_enough_money]\<rparr>)
     else
       0 \<le> amount - cost drink
       \<and> run_body e self con =
         (Continue,
          self\<lparr>resources :=
                 \<lparr>water = Resources.water (resources self) - Drink.water drink,
                  milk = Resources.milk (resources self) - Drink.milk drink,
                  coffee = Resources.coffee (resources self) - Drink.coffee drink\<rparr>,
               money_collected := money_collected self + cost drink,
               orders := orders self @
                 [\<lparr>drink_name = name drink, amount_paid = cost drink,
                   timestamp = clock e (ticks con)\<rparr>]\<rparr>,
          con\<lparr>stdin := rest,
              stdout := stdout con @ [Ask_choice, Please_pay (cost drink), Ask_amount]
                @ (if amount - cost drink = 0 then []
                   else [Here_is_your_change (amount - cost drink)])
                @ [Heres_your (name drink)],
              ticks := ticks con + 1\<rparr>)"
  using assms
  by (auto simp: run_body_def Let_def input_Cons check_resources_def make_drink_def new_Order_def
        strftime_def print_def)

text \<open>On a new machine, 120 is paid for an espresso, which costs 100: the change is 20.\<close>

theorem payment_decides_purchase_witness:
  "menu init (lower ''Espresso'') = Some espresso
   \<and> to_int test_env ''120'' = Some 120
   \<and> run_body test_env init (console0 [''Espresso'', ''120'']) =
       (Continue,
        init\<lparr>resources := \<lparr>water = 950, milk = 800, coffee = 282\<rparr>,
             money_collected := 100,
             orders := [\<lparr>drink_name = ''Espresso'', amount_paid = 100,
                         timestamp = ''04-11-2026 09:00:00''\<rparr>]\<rparr>,
        \<lparr>stdin = [],
         stdout = [Ask_choice, Please_pay 100, Ask_amount, Here_is_your_change 20,
                   Heres_your ''Espresso''],
         ticks = 1\<rparr>)"
proof -
  have a: "stdin (console0 [''Espresso'', ''120'']) = ''Espresso'' # ''120'' # []"
    by (simp add: console0_def)
  have b: "lower ''Espresso'' \<notin> {''exit'', ''report'', ''history''}"
    by (simp add: lower_def lower_char_def)
  have c: "menu init (lower ''Espresso'') = Some espresso"
    by (simp add: init_def lower_def lower_char_def)
  have d: "Resources.water (resources init) \<ge> Drink.water espresso"
    "Resources.milk (resources init) \<ge> Drink.milk espresso"
    "Resources.coffee (resources init) \<ge> Drink.coffee espresso"
    by (simp_all add: init_def espresso_def)
  have f: "to_int test_env ''120'' = Some 120"
    by (simp add: test_env_def decimal_def digit_def)
  from payment_decides_purchase [OF a b c d f] c f show ?thesis
    by (simp add: espresso_def console0_def test_env_def) (simp add: init_def)
qed

text \<open>
  C10. The order that a purchase appends records the drink's price as the amount paid,
  whatever amount was typed: two purchases of the same drink on the same machine that
  differ only in the amount typed (both at least the price) leave the same machine, so
  an overpayment is not visible in the orders.
\<close>

theorem order_records_price:
  assumes "stdin con = typed # paid # rest"
    and "stdin con_b = typed # paid_b # rest_b"
    and "ticks con_b = ticks con"
    and "lower typed \<notin> {''exit'', ''report'', ''history''}"
    and "menu self (lower typed) = Some drink"
    and "fst (check_resources self drink con)"
    and "to_int e paid = Some amount"
    and "to_int e paid_b = Some amount_b"
    and "cost drink \<le> amount"
    and "cost drink \<le> amount_b"
  shows "orders (fst (snd (run_body e self con))) =
           orders self @
             [\<lparr>drink_name = name drink, amount_paid = cost drink, timestamp = clock e (ticks con)\<rparr>]
         \<and> fst (snd (run_body e self con_b)) = fst (snd (run_body e self con))"
  using assms
  by (auto simp: run_body_def Let_def input_Cons check_resources_def make_drink_def new_Order_def
        strftime_def print_def split: if_splits)

text \<open>On a new machine, a cappuccino (price 250) paid with 250 and paid with 1000.\<close>

theorem order_records_price_witness:
  "menu init (lower ''cappuccino'') = Some cappuccino
   \<and> to_int test_env ''250'' = Some 250
   \<and> to_int test_env ''1000'' = Some 1000
   \<and> cost cappuccino = 250
   \<and> orders (fst (snd (run_body test_env init (console0 [''cappuccino'', ''1000'', ''exit''])))) =
       [\<lparr>drink_name = ''Cappuccino'', amount_paid = 250, timestamp = ''04-11-2026 09:00:00''\<rparr>]
   \<and> fst (snd (run_body test_env init (console0 [''cappuccino'', ''250'']))) =
       fst (snd (run_body test_env init (console0 [''cappuccino'', ''1000'', ''exit''])))"
proof -
  have a: "stdin (console0 [''cappuccino'', ''1000'', ''exit'']) = ''cappuccino'' # ''1000'' # [''exit'']"
    by (simp add: console0_def)
  have a_b: "stdin (console0 [''cappuccino'', ''250'']) = ''cappuccino'' # ''250'' # []"
    by (simp add: console0_def)
  have t: "ticks (console0 [''cappuccino'', ''250'']) = ticks (console0 [''cappuccino'', ''1000'', ''exit''])"
    by (simp add: console0_def)
  have b: "lower ''cappuccino'' \<notin> {''exit'', ''report'', ''history''}"
    by (simp add: lower_def lower_char_def)
  have c: "menu init (lower ''cappuccino'') = Some cappuccino"
    by (simp add: init_def lower_def lower_char_def)
  have d: "fst (check_resources init cappuccino (console0 [''cappuccino'', ''1000'', ''exit'']))"
    by (simp add: check_resources_def init_def cappuccino_def)
  have f: "to_int test_env ''1000'' = Some 1000" "to_int test_env ''250'' = Some 250"
    by (simp_all add: test_env_def decimal_def digit_def)
  have g: "cost cappuccino \<le> 1000" "cost cappuccino \<le> 250" "cost cappuccino = 250"
    by (simp_all add: cappuccino_def)
  from order_records_price [OF a a_b t b c d f g(1,2)] c f g(3) show ?thesis
    by (simp add: cappuccino_def console0_def test_env_def) (simp add: init_def)
qed

subsection \<open>The report and its password\<close>

text \<open>
  C9. When \<^verbatim>\<open>report\<close> is chosen, the next line read is the password. The report is
  written if and only if that line is exactly \<^verbatim>\<open>gcuadmin\<close>; for any other line the only
  answer is the denial. One comparison decides, and in both cases the machine is
  unchanged and the console has only lost the two lines and gained the output.
\<close>

theorem report_iff_password:
  assumes "stdin con = typed # password # rest"
    and "lower typed = ''report''"
  shows "run_body e self con =
     (Continue, self,
      con\<lparr>stdin := rest,
          stdout := stdout con @ [Ask_choice, Ask_password]
            @ (if password = ''gcuadmin'' then
                 [Report_title,
                  Report_water (Resources.water (resources self)),
                  Report_milk (Resources.milk (resources self)),
                  Report_coffee (Resources.coffee (resources self)),
                  Report_sales (money_collected self),
                  Report_orders (length (orders self)),
                  Blank]
               else [Access_denied])\<rparr>)
     \<and> (stdout (snd (snd (run_body e self con))) =
          stdout (snd (print_report self
            (con\<lparr>stdin := rest, stdout := stdout con @ [Ask_choice, Ask_password]\<rparr>))))
         = (password = ''gcuadmin'')"
  using assms
  by (auto simp: run_body_def Let_def input_Cons print_report_def print_def)

text \<open>On a new machine: the password in capitals is refused, the password itself is
  accepted (the choice, unlike the password, is read without regard to case).\<close>

theorem report_iff_password_witness:
  "lower ''Report'' = ''report''
   \<and> run_body test_env init (console0 [''Report'', ''GCUADMIN'']) =
       (Continue, init,
        \<lparr>stdin = [], stdout = [Ask_choice, Ask_password, Access_denied], ticks = 0\<rparr>)
   \<and> run_body test_env init (console0 [''Report'', ''gcuadmin'']) =
       (Continue, init,
        \<lparr>stdin = [],
         stdout = [Ask_choice, Ask_password, Report_title, Report_water 1000, Report_milk 800,
                   Report_coffee 300, Report_sales 0, Report_orders 0, Blank],
         ticks = 0\<rparr>)"
proof -
  have a: "stdin (console0 [''Report'', ''GCUADMIN'']) = ''Report'' # ''GCUADMIN'' # []"
    and b: "stdin (console0 [''Report'', ''gcuadmin'']) = ''Report'' # ''gcuadmin'' # []"
    by (simp_all add: console0_def)
  have c: "lower ''Report'' = ''report''"
    by (simp add: lower_def lower_char_def)
  from report_iff_password [OF a c, of test_env init]
    report_iff_password [OF b c, of test_env init] c
  show ?thesis
    by (simp add: console0_def init_def)
qed

subsection \<open>The first purchase on a new machine\<close>

text \<open>
  C6. On a new machine (water 1000, milk 800, coffee 300) an espresso is chosen and 100 is
  paid. The purchase is made and no change is announced; the machine is left with water
  950, milk 800, coffee 282, money collected 100 and one order. The second part runs the
  whole program on this purchase followed by the report, which shows these five numbers.
\<close>

theorem espresso_scenario:
  assumes "to_int e ''100'' = Some 100"
  shows "run_body e init (console0 [''espresso'', ''100'']) =
     (Continue,
      \<lparr>resources = \<lparr>water = 950, milk = 800, coffee = 282\<rparr>,
       menu = menu init,
       money_collected = 100,
       orders = [\<lparr>drink_name = ''Espresso'', amount_paid = 100, timestamp = clock e 0\<rparr>]\<rparr>,
      \<lparr>stdin = [],
       stdout = [Ask_choice, Please_pay 100, Ask_amount, Heres_your ''Espresso''],
       ticks = 1\<rparr>)
   \<and> main e (console0 [''espresso'', ''100'', ''report'', ''gcuadmin'', ''exit'']) =
     (None,
      \<lparr>resources = \<lparr>water = 950, milk = 800, coffee = 282\<rparr>,
       menu = menu init,
       money_collected = 100,
       orders = [\<lparr>drink_name = ''Espresso'', amount_paid = 100, timestamp = clock e 0\<rparr>]\<rparr>,
      \<lparr>stdin = [],
       stdout = [Welcome,
                 Ask_choice, Please_pay 100, Ask_amount, Heres_your ''Espresso'',
                 Ask_choice, Ask_password, Report_title, Report_water 950, Report_milk 800,
                 Report_coffee 282, Report_sales 100, Report_orders 1, Blank,
                 Ask_choice, Thank_you],
       ticks = 1\<rparr>)"
proof -
  let ?m = "\<lparr>resources = \<lparr>water = 950, milk = 800, coffee = 282\<rparr>,
       menu = menu init,
       money_collected = 100,
       orders = [\<lparr>drink_name = ''Espresso'', amount_paid = 100, timestamp = clock e 0\<rparr>]\<rparr>"
  have buy: "run_body e init \<lparr>stdin = ''espresso'' # ''100'' # ls, stdout = out, ticks = 0\<rparr> =
      (Continue, ?m,
       \<lparr>stdin = ls,
        stdout = out @ [Ask_choice, Please_pay 100, Ask_amount, Heres_your ''Espresso''],
        ticks = 1\<rparr>)" for ls out
    using assms
    by (simp add: run_body_def Let_def input_Cons check_resources_def make_drink_def new_Order_def
          strftime_def print_def init_def espresso_def lower_def lower_char_def)
  have report: "run_body e ?m \<lparr>stdin = ''report'' # ''gcuadmin'' # ls, stdout = out, ticks = 1\<rparr> =
      (Continue, ?m,
       \<lparr>stdin = ls,
        stdout = out @ [Ask_choice, Ask_password, Report_title, Report_water 950, Report_milk 800,
                 Report_coffee 282, Report_sales 100, Report_orders 1, Blank],
        ticks = 1\<rparr>)" for ls out
    by (simp add: run_body_def Let_def input_Cons print_report_def print_def lower_def lower_char_def)
  have exit: "run_body e ?m \<lparr>stdin = ''exit'' # ls, stdout = out, ticks = 1\<rparr> =
      (Break, ?m, \<lparr>stdin = ls, stdout = out @ [Ask_choice, Thank_you], ticks = 1\<rparr>)" for ls out
    by (simp add: run_body_def Let_def input_Cons print_def lower_def lower_char_def)
  have "main e (console0 [''espresso'', ''100'', ''report'', ''gcuadmin'', ''exit'']) =
      run_loop e init
        \<lparr>stdin = ''espresso'' # ''100'' # [''report'', ''gcuadmin'', ''exit''],
         stdout = [Welcome], ticks = 0\<rparr>"
    by (simp add: main_def run_def console0_def print_def)
  also have "\<dots> = run_loop e ?m
      \<lparr>stdin = ''report'' # ''gcuadmin'' # [''exit''],
       stdout = [Welcome] @ [Ask_choice, Please_pay 100, Ask_amount, Heres_your ''Espresso''],
       ticks = 1\<rparr>"
    by (rule run_loop_Continue) (simp add: buy)
  also have "\<dots> = run_loop e ?m
      \<lparr>stdin = ''exit'' # [],
       stdout = ([Welcome] @ [Ask_choice, Please_pay 100, Ask_amount, Heres_your ''Espresso''])
         @ [Ask_choice, Ask_password, Report_title, Report_water 950, Report_milk 800,
            Report_coffee 282, Report_sales 100, Report_orders 1, Blank],
       ticks = 1\<rparr>"
    by (rule run_loop_Continue) (simp only: report)
  also have "\<dots> = (None, ?m,
      \<lparr>stdin = [],
       stdout = (([Welcome] @ [Ask_choice, Please_pay 100, Ask_amount, Heres_your ''Espresso''])
         @ [Ask_choice, Ask_password, Report_title, Report_water 950, Report_milk 800,
            Report_coffee 282, Report_sales 100, Report_orders 1, Blank])
         @ [Ask_choice, Thank_you],
       ticks = 1\<rparr>)"
    by (rule run_loop_Break) (simp only: exit)
  finally have whole: "main e (console0 [''espresso'', ''100'', ''report'', ''gcuadmin'', ''exit'']) =
      (None, ?m,
       \<lparr>stdin = [],
        stdout = [Welcome,
                 Ask_choice, Please_pay 100, Ask_amount, Heres_your ''Espresso'',
                 Ask_choice, Ask_password, Report_title, Report_water 950, Report_milk 800,
                 Report_coffee 282, Report_sales 100, Report_orders 1, Blank,
                 Ask_choice, Thank_you],
        ticks = 1\<rparr>)"
    by simp
  from buy [of "[]" "[]"] whole show ?thesis
    by (simp add: console0_def)
qed

theorem espresso_scenario_witness:
  "to_int test_env ''100'' = Some 100
   \<and> resources (fst (snd (main test_env
        (console0 [''espresso'', ''100'', ''report'', ''gcuadmin'', ''exit''])))) =
       \<lparr>water = 950, milk = 800, coffee = 282\<rparr>
   \<and> money_collected (fst (snd (main test_env
        (console0 [''espresso'', ''100'', ''report'', ''gcuadmin'', ''exit''])))) = 100
   \<and> length (orders (fst (snd (main test_env
        (console0 [''espresso'', ''100'', ''report'', ''gcuadmin'', ''exit'']))))) = 1"
proof -
  have a: "to_int test_env ''100'' = Some 100"
    by (simp add: test_env_def decimal_def digit_def)
  from espresso_scenario [OF a] a show ?thesis by simp
qed

subsection \<open>Money collected and the orders\<close>

text \<open>The only method that changes the money collected or the orders is
  \<^verbatim>\<open>make_drink\<close>, which adds the drink's cost to the one and an order with that amount to
  the other.\<close>

lemma revenue_make_drink:
  "money_collected self = sum_list (map amount_paid (orders self)) \<Longrightarrow>
   money_collected (fst (make_drink e self drink con)) =
     sum_list (map amount_paid (orders (fst (make_drink e self drink con))))"
  by (simp add: make_drink_def new_Order_def strftime_def Let_def)

lemma revenue_run_body:
  assumes "money_collected self = sum_list (map amount_paid (orders self))"
  shows "money_collected (fst (snd (run_body e self con))) =
     sum_list (map amount_paid (orders (fst (snd (run_body e self con)))))"
proof -
  from run_body_machine [of e self con] show ?thesis
  proof
    assume "fst (snd (run_body e self con)) = self"
    with assms show ?thesis by simp
  next
    assume "\<exists>typed rest drink.
         stdin con = typed # rest \<and> menu self (lower typed) = Some drink
         \<and> fst (check_resources self drink con)
         \<and> fst (snd (run_body e self con)) = fst (make_drink e self drink con)"
    then obtain drink where "fst (snd (run_body e self con)) = fst (make_drink e self drink con)"
      by blast
    with revenue_make_drink [OF assms, of e drink con] show ?thesis by simp
  qed
qed

lemma revenue_run_loop:
  "money_collected self = sum_list (map amount_paid (orders self)) \<Longrightarrow>
   money_collected (fst (snd (run_loop e self con))) =
     sum_list (map amount_paid (orders (fst (snd (run_loop e self con)))))"
proof (induction e self con rule: run_loop.induct)
  case (1 e self con)
  obtain ctl s1 c1 where rb: "run_body e self con = (ctl, s1, c1)"
    by (cases "run_body e self con") auto
  have inv1: "money_collected s1 = sum_list (map amount_paid (orders s1))"
    using revenue_run_body [OF "1.prems", of e con] rb by simp
  show ?case
  proof (cases ctl)
    case Continue
    with rb have "run_loop e self con = run_loop e s1 c1" by (simp add: run_loop_Continue)
    moreover have "money_collected (fst (snd (run_loop e s1 c1))) =
        sum_list (map amount_paid (orders (fst (snd (run_loop e s1 c1)))))"
      using "1.IH" [of ctl "(s1, c1)" s1 c1] rb Continue inv1 by simp
    ultimately show ?thesis by simp
  next
    case Break
    with rb inv1 show ?thesis by (simp add: run_loop_Break)
  next
    case (Raise x)
    with rb inv1 show ?thesis by (simp add: run_loop_Raise)
  qed
qed

lemma revenue_do_call:
  "money_collected (fst st) = sum_list (map amount_paid (orders (fst st))) \<Longrightarrow>
   money_collected (fst (do_call e st c)) = sum_list (map amount_paid (orders (fst (do_call e st c))))"
proof (cases st)
  case (Pair self con)
  assume inv: "money_collected (fst st) = sum_list (map amount_paid (orders (fst st)))"
  with Pair have inv': "money_collected self = sum_list (map amount_paid (orders self))" by simp
  show ?thesis
  proof (cases c)
    case Print_report
    with Pair inv' show ?thesis by (simp add: machine_print_report)
  next
    case (Check_resources d)
    with Pair inv' show ?thesis by (simp add: machine_check_resources)
  next
    case (Make_drink d)
    with Pair show ?thesis using revenue_make_drink [OF inv'] by simp
  next
    case Show_order_history
    with Pair inv' show ?thesis by (simp add: machine_show_order_history)
  next
    case (Run ls)
    with Pair show ?thesis using revenue_run_loop [OF inv'] by (simp add: run_def)
  next
    case (Pass ls)
    with Pair show ?thesis using revenue_run_body [OF inv'] by simp
  qed
qed

lemma revenue_foldl:
  "money_collected (fst st) = sum_list (map amount_paid (orders (fst st))) \<Longrightarrow>
   money_collected (fst (foldl (do_call e) st cs)) =
     sum_list (map amount_paid (orders (fst (foldl (do_call e) st cs))))"
  by (induction cs arbitrary: st) (simp_all add: revenue_do_call)

text \<open>
  C2. After any sequence of calls on a new machine (\<^verbatim>\<open>run\<close> on any input, single passes
  of its loop, \<^verbatim>\<open>make_drink\<close> and \<^verbatim>\<open>check_resources\<close> on any drink, the report, the
  history), the
  money collected equals the sum of the amounts of the orders recorded. (The amount an
  order records is the price of its drink: \<^verbatim>\<open>make_drink\<close> passes \<^verbatim>\<open>drink.cost\<close> to the
  order it creates.)
\<close>

theorem revenue_equals_order_prices:
  "money_collected (fst (do_calls e cs con)) =
     sum_list (map amount_paid (orders (fst (do_calls e cs con))))"
  unfolding do_calls_def by (rule revenue_foldl) (simp add: init_def)

subsection \<open>Deduction and its guard\<close>

text \<open>
  C3, as stated, fails: \<^verbatim>\<open>make_drink\<close>, the method that deducts, has no check of its
  own and no way to fail. Called on the machine without water, for which
  \<^verbatim>\<open>check_resources\<close> returns \<^verbatim>\<open>False\<close>, it takes the water to 250 below zero.
\<close>

theorem make_drink_deducts_unguarded:
  "resources drained = \<lparr>water = 0, milk = 400, coffee = 204\<rparr>
   \<and> \<not> fst (check_resources drained cappuccino (console0 []))
   \<and> Resources.water (resources (fst (make_drink test_env drained cappuccino (console0 [])))) = - 250
   \<and> Resources.water (resources (fst (make_drink test_env drained cappuccino (console0 [])))) < 0"
  by code_simp

text \<open>
  C3, amended. The guard is in \<^verbatim>\<open>run\<close>, which calls \<^verbatim>\<open>make_drink\<close> only after
  \<^verbatim>\<open>check_resources\<close> has returned \<^verbatim>\<open>True\<close> for the same drink on the same machine. So a
  pass of the loop of \<^verbatim>\<open>run\<close> either leaves the three quantities as they are, or deducts
  all three requirements of a drink for which the check held, and then none of the three
  is below zero; and a pass whose drink fails the check leaves the machine unchanged.
\<close>

theorem run_deducts_only_after_check:
  "(resources (fst (snd (run_body e self con))) = resources self
    \<or> (\<exists>typed rest drink.
          stdin con = typed # rest \<and> menu self (lower typed) = Some drink
          \<and> fst (check_resources self drink con)
          \<and> resources (fst (snd (run_body e self con))) =
              \<lparr>water = Resources.water (resources self) - Drink.water drink,
               milk = Resources.milk (resources self) - Drink.milk drink,
               coffee = Resources.coffee (resources self) - Drink.coffee drink\<rparr>
          \<and> 0 \<le> Resources.water (resources (fst (snd (run_body e self con))))
          \<and> 0 \<le> Resources.milk (resources (fst (snd (run_body e self con))))
          \<and> 0 \<le> Resources.coffee (resources (fst (snd (run_body e self con))))))
   \<and> (\<forall>typed rest drink.
        stdin con = typed # rest \<and> menu self (lower typed) = Some drink
        \<and> \<not> fst (check_resources self drink con)
        \<longrightarrow> fst (snd (run_body e self con)) = self)"
proof (intro conjI allI impI)
  from run_body_machine [of e self con]
  show "resources (fst (snd (run_body e self con))) = resources self
    \<or> (\<exists>typed rest drink.
          stdin con = typed # rest \<and> menu self (lower typed) = Some drink
          \<and> fst (check_resources self drink con)
          \<and> resources (fst (snd (run_body e self con))) =
              \<lparr>water = Resources.water (resources self) - Drink.water drink,
               milk = Resources.milk (resources self) - Drink.milk drink,
               coffee = Resources.coffee (resources self) - Drink.coffee drink\<rparr>
          \<and> 0 \<le> Resources.water (resources (fst (snd (run_body e self con))))
          \<and> 0 \<le> Resources.milk (resources (fst (snd (run_body e self con))))
          \<and> 0 \<le> Resources.coffee (resources (fst (snd (run_body e self con)))))"
  proof
    assume "fst (snd (run_body e self con)) = self"
    then show ?thesis by simp
  next
    assume "\<exists>typed rest drink.
         stdin con = typed # rest \<and> menu self (lower typed) = Some drink
         \<and> fst (check_resources self drink con)
         \<and> fst (snd (run_body e self con)) = fst (make_drink e self drink con)"
    then obtain typed rest drink where
      inp: "stdin con = typed # rest" "menu self (lower typed) = Some drink"
      and ok: "fst (check_resources self drink con)"
      and made: "fst (snd (run_body e self con)) = fst (make_drink e self drink con)"
      by blast
    from ok have enough:
      "Drink.water drink \<le> Resources.water (resources self)"
      "Drink.milk drink \<le> Resources.milk (resources self)"
      "Drink.coffee drink \<le> Resources.coffee (resources self)"
      by (simp_all add: check_resources_def split: if_splits)
    have res: "resources (fst (snd (run_body e self con))) =
              \<lparr>water = Resources.water (resources self) - Drink.water drink,
               milk = Resources.milk (resources self) - Drink.milk drink,
               coffee = Resources.coffee (resources self) - Drink.coffee drink\<rparr>"
      by (simp add: made machine_make_drink)
    with enough inp ok show ?thesis by auto
  qed
next
  fix typed rest drink
  assume "stdin con = typed # rest \<and> menu self (lower typed) = Some drink
        \<and> \<not> fst (check_resources self drink con)"
  then show "fst (snd (run_body e self con)) = self"
    by (simp add: run_body_check_fails)
qed

theorem run_deducts_only_after_check_witness:
  "menu drained (lower ''cappuccino'') = Some cappuccino
   \<and> \<not> fst (check_resources drained cappuccino (console0 [''cappuccino'', ''250'']))
   \<and> fst (snd (run_body test_env drained (console0 [''cappuccino'', ''250'']))) = drained"
proof -
  have a: "stdin (console0 [''cappuccino'', ''250'']) = ''cappuccino'' # [''250'']"
    by (simp add: console0_def)
  have b: "menu drained (lower ''cappuccino'') = Some cappuccino"
    by code_simp
  have c: "\<not> fst (check_resources drained cappuccino (console0 [''cappuccino'', ''250'']))"
    by code_simp
  from run_deducts_only_after_check [of test_env drained "console0 [''cappuccino'', ''250'']"] a b c
  show ?thesis by blast
qed

subsection \<open>The order history\<close>

lemma slice_from_recent: "slice_from (- 5) xs = recent 5 xs"
  by (simp add: slice_from_def recent_def Let_def max_def nat_diff_distrib')

lemma foldl_print:
  "foldl (\<lambda>c x. print (f x) c) con xs = con\<lparr>stdout := stdout con @ map f xs\<rparr>"
  by (induction xs arbitrary: con) (simp_all add: print_def)

lemma show_order_history_eq:
  "show_order_history self con =
     (self,
      con\<lparr>stdout := stdout con @
        (if orders self = [] then [No_orders]
         else [History_title] @ map history_entry (slice_from (- 5) (orders self)) @ [Blank])\<rparr>)"
proof -
  have "foldl (\<lambda>c order. print (History_entry (timestamp order) (drink_name order) (amount_paid order)) c) c0 xs
      = c0\<lparr>stdout := stdout c0 @ map history_entry xs\<rparr>" for c0 xs
    using foldl_print [of history_entry c0 xs] by (simp add: history_entry_def)
  then show ?thesis
    by (simp add: show_order_history_def print_def)
qed

lemma slice_from_length: "length (slice_from (- 5) xs) = min 5 (length xs)"
  by (simp add: slice_from_recent recent_def)

lemma slice_from_suffix: "take (length xs - 5) xs @ slice_from (- 5) xs = xs"
  by (simp add: slice_from_recent recent_def)

lemma slice_from_whole: "(slice_from (- 5) xs = xs) = (length xs \<le> 5)"
proof
  assume "slice_from (- 5) xs = xs"
  then have "length (slice_from (- 5) xs) = length xs" by simp
  then show "length xs \<le> 5" by (simp add: slice_from_length)
next
  assume "length xs \<le> 5"
  then show "slice_from (- 5) xs = xs" by (simp add: slice_from_recent recent_def)
qed

text \<open>
  C7, as stated, fails: \<^verbatim>\<open>show_order_history\<close> has no parameter \<open>n\<close>. On the machine
  with two orders it lists both, which is not what \<open>recent(1)\<close> returns.
\<close>

theorem show_order_history_not_recent_1:
  "stdout (snd (show_order_history two_orders (console0 []))) =
     [History_title,
      History_entry ''04-11-2026 09:00:00'' ''Espresso'' 100,
      History_entry ''04-11-2026 09:00:00'' ''Latte'' 200,
      Blank]
   \<and> map history_entry (recent 1 (orders two_orders)) =
     [History_entry ''04-11-2026 09:00:00'' ''Latte'' 200]
   \<and> stdout (snd (show_order_history two_orders (console0 [])))
     \<noteq> [History_title] @ map history_entry (recent 1 (orders two_orders)) @ [Blank]"
  by code_simp

text \<open>
  C7, amended. \<^verbatim>\<open>show_order_history\<close> lists \<open>recent(5)\<close>, the number being fixed in the
  code: after the title it writes one line for each of the last five orders, oldest
  first, and all of them exactly when there are at most five. With no orders it writes a
  notice instead and returns; it never fails and leaves the machine unchanged.
\<close>

theorem show_order_history_last_five:
  "show_order_history self con =
     (self,
      con\<lparr>stdout := stdout con @
        (if orders self = [] then [No_orders]
         else [History_title] @ map history_entry (recent 5 (orders self)) @ [Blank])\<rparr>)
   \<and> recent 5 (orders self) = slice_from (- 5) (orders self)
   \<and> length (slice_from (- 5) (orders self)) = min 5 (length (orders self))
   \<and> take (length (orders self) - 5) (orders self) @ slice_from (- 5) (orders self) = orders self
   \<and> (slice_from (- 5) (orders self) = orders self) = (length (orders self) \<le> 5)"
  by (simp add: show_order_history_eq slice_from_length slice_from_suffix slice_from_whole)
     (simp add: slice_from_recent)

end
